theory Spec2Isabelle
  imports Complex_Main
begin

section \<open>Floating-point values, their comparisons and their arithmetic\<close>

text \<open>
  Measurement values and thresholds are IEEE doubles. A double is one of: not-a-number,
  negative infinity, a finite number, positive infinity. A finite double is modelled by
  the real number it denotes (the two signed zeros are one value, they compare equal).
  Comparisons follow IEEE: every comparison with NaN is False. Arithmetic follows IEEE
  as well: the result of an operation on finite doubles is the exact result rounded to
  the nearest double, ties to the even significand, and to an infinity beyond the range.
\<close>

datatype fval = NaN | NInf | Fin real | PInf

fun isnan :: "fval \<Rightarrow> bool" where
  "isnan NaN = True"
| "isnan _ = False"

text \<open>\<open>a > b\<close> on doubles.\<close>

fun fgt :: "fval \<Rightarrow> fval \<Rightarrow> bool" where
  "fgt NaN _ = False"
| "fgt _ NaN = False"
| "fgt NInf _ = False"
| "fgt _ PInf = False"
| "fgt (Fin a) (Fin b) = (b < a)"
| "fgt (Fin a) NInf = True"
| "fgt PInf _ = True"

text \<open>\<open>a <= b\<close> on doubles.\<close>

fun fle :: "fval \<Rightarrow> fval \<Rightarrow> bool" where
  "fle NaN _ = False"
| "fle _ NaN = False"
| "fle NInf _ = True"
| "fle _ PInf = True"
| "fle (Fin a) (Fin b) = (a \<le> b)"
| "fle (Fin a) NInf = False"
| "fle PInf _ = False"

text \<open>The sign of a non-NaN double: \<open>-1\<close>, \<open>0\<close> or \<open>1\<close>.\<close>

fun fsgn :: "fval \<Rightarrow> real" where
  "fsgn NaN = 0"
| "fsgn NInf = - 1"
| "fsgn (Fin a) = sgn a"
| "fsgn PInf = 1"

definition inf_of_sign :: "real \<Rightarrow> fval" where
  "inf_of_sign s = (if s = 0 then NaN else if 0 < s then PInf else NInf)"

text \<open>Rounding to the nearest integer, a tie to the even one.\<close>

definition round_half_even :: "real \<Rightarrow> int" where
  "round_half_even r =
     (let f = \<lfloor>r\<rfloor>; d = r - of_int f
      in if d < 1 / 2 then f else if 1 / 2 < d then f + 1
         else if even f then f else f + 1)"

text \<open>
  The exponent \<open>e\<close> of the last place of a positive number \<open>a\<close> below \<open>2 ^ 1024\<close>: the
  significand \<open>a / 2 ^ e\<close> lies from \<open>2 ^ 52\<close> up to, not including, \<open>2 ^ 53\<close>, or \<open>e\<close>
  is the least exponent \<open>-1074\<close> (subnormal numbers). The search starts at 0 and moves by
  one; exponents lie between \<open>-1074\<close> and \<open>971\<close>, so 1100 steps suffice.
\<close>

fun find_exp :: "nat \<Rightarrow> real \<Rightarrow> int \<Rightarrow> int" where
  "find_exp 0 a e = e"
| "find_exp (Suc k) a e =
     (if 2 ^ 53 * 2 powi e \<le> a then find_exp k a (e + 1)
      else if a < 2 ^ 52 * 2 powi e \<and> - 1074 < e then find_exp k a (e - 1)
      else e)"

text \<open>
  The double nearest to a real number: the significand is rounded at the exponent of
  the last place; a result of \<open>2 ^ 1024\<close> or more is an infinity.
\<close>

definition rnd :: "real \<Rightarrow> fval" where
  "rnd x =
     (let a = \<bar>x\<bar>
      in if a = 0 then Fin 0
         else if 2 ^ 1024 \<le> a then inf_of_sign (sgn x)
         else (let e = find_exp 1100 a 0;
                   y = of_int (round_half_even (a / 2 powi e)) * 2 powi e
               in if 2 ^ 1024 \<le> y then inf_of_sign (sgn x) else Fin (sgn x * y)))"

fun fneg :: "fval \<Rightarrow> fval" where
  "fneg NaN = NaN"
| "fneg NInf = PInf"
| "fneg (Fin a) = Fin (- a)"
| "fneg PInf = NInf"

fun fadd :: "fval \<Rightarrow> fval \<Rightarrow> fval" where
  "fadd NaN _ = NaN"
| "fadd _ NaN = NaN"
| "fadd (Fin a) (Fin b) = rnd (a + b)"
| "fadd NInf PInf = NaN"
| "fadd PInf NInf = NaN"
| "fadd NInf _ = NInf"
| "fadd PInf _ = PInf"
| "fadd (Fin a) i = i"

definition fsub :: "fval \<Rightarrow> fval \<Rightarrow> fval" where
  "fsub a b = fadd a (fneg b)"

fun fmul :: "fval \<Rightarrow> fval \<Rightarrow> fval" where
  "fmul NaN _ = NaN"
| "fmul _ NaN = NaN"
| "fmul (Fin a) (Fin b) = rnd (a * b)"
| "fmul a b = inf_of_sign (fsgn a * fsgn b)"

text \<open>
  Division of doubles as numpy does it on arrays: dividing by zero raises nothing, it
  yields an infinity, or NaN for \<open>0/0\<close>. The divisor zero is the positive zero here
  (it is \<open>float(bin_count)\<close>).
\<close>

fun fdiv :: "fval \<Rightarrow> fval \<Rightarrow> fval" where
  "fdiv NaN _ = NaN"
| "fdiv _ NaN = NaN"
| "fdiv (Fin a) (Fin b) = (if b = 0 then inf_of_sign (sgn a) else rnd (a / b))"
| "fdiv (Fin a) _ = Fin 0"
| "fdiv a (Fin b) = inf_of_sign (fsgn a * (if b < 0 then - 1 else 1))"
| "fdiv _ _ = NaN"

section \<open>Strings: \<open>split\<close>, \<open>strip\<close>, \<open>str\<close> and \<open>float\<close>\<close>

datatype error = ValueError | IndexError | ZeroDivisionError

definition whitespace :: "char set" where
  "whitespace = {CHR '' '', CHR 0x09, CHR 0x0A, CHR 0x0B, CHR 0x0C, CHR 0x0D}"

text \<open>\<open>s.strip()\<close>: leading and trailing whitespace removed.\<close>

definition strip :: "string \<Rightarrow> string" where
  "strip s = rev (dropWhile (\<lambda>c. c \<in> whitespace) (rev (dropWhile (\<lambda>c. c \<in> whitespace) s)))"

text \<open>
  \<open>s.split(sep)\<close> for a non-empty separator: the string is scanned from the left,
  every occurrence of the separator ends a token, the scan goes on after it. The
  accumulator holds the current token reversed.
\<close>

function split_from :: "string \<Rightarrow> string \<Rightarrow> string \<Rightarrow> string list" where
  "split_from sep cur [] = [rev cur]"
| "split_from sep cur (x # xs) =
     (if sep \<noteq> [] \<and> take (length sep) (x # xs) = sep
      then rev cur # split_from sep [] (drop (length sep) (x # xs))
      else split_from sep (x # cur) xs)"
  by pat_completeness auto
termination
  by (relation "measure (\<lambda>(sep, cur, s). length s)") auto

definition split :: "string \<Rightarrow> string \<Rightarrow> string list" where
  "split s sep = split_from sep [] s"

text \<open>\<open>sep.join(xs)\<close>.\<close>

fun join :: "string \<Rightarrow> string list \<Rightarrow> string" where
  "join sep [] = []"
| "join sep [x] = x"
| "join sep (x # y # ys) = x @ sep @ join sep (y # ys)"

definition digits :: string where
  "digits = ''0123456789''"

text \<open>\<open>str(n)\<close> and \<open>'%d' % n\<close> for a non-negative integer.\<close>

function str :: "nat \<Rightarrow> string" where
  "str n = (if n < 10 then [digits ! n] else str (n div 10) @ [digits ! (n mod 10)])"
  by pat_completeness auto
termination
  by (relation "measure (\<lambda>n. n)") auto

declare str.simps [simp del]

fun digit_val :: "char \<Rightarrow> nat" where
  "digit_val c = of_char c - of_char CHR ''0''"

text \<open>The number written by a string of decimal digits (0 for the empty string).\<close>

definition digits_val :: "string \<Rightarrow> nat" where
  "digits_val ds = foldl (\<lambda>acc c. 10 * acc + digit_val c) 0 ds"

definition lower :: "char \<Rightarrow> char" where
  "lower c = (case map_of (zip ''ABCDEFGHIJKLMNOPQRSTUVWXYZ'' ''abcdefghijklmnopqrstuvwxyz'') c of
                None \<Rightarrow> c | Some d \<Rightarrow> d)"

text \<open>
  The exponent part of a decimal literal: empty, or \<open>e\<close>/\<open>E\<close>, an optional sign and
  at least one digit.
\<close>

definition parse_exponent :: "string \<Rightarrow> int option" where
  "parse_exponent s =
     (case s of
        [] \<Rightarrow> Some 0
      | c # r \<Rightarrow>
          if c = CHR ''e'' \<or> c = CHR ''E'' then
            (let (neg, ds) = (case r of
                                [] \<Rightarrow> (False, [])
                              | d # r' \<Rightarrow> if d = CHR ''-'' then (True, r')
                                         else if d = CHR ''+'' then (False, r')
                                         else (False, r))
             in if ds \<noteq> [] \<and> (\<forall>d \<in> set ds. d \<in> set digits)
                then Some (if neg then - int (digits_val ds) else int (digits_val ds))
                else None)
          else None)"

text \<open>
  An unsigned decimal literal: digits, an optional point with digits, an optional
  exponent; at least one digit before or after the point.
\<close>

definition parse_decimal :: "string \<Rightarrow> real option" where
  "parse_decimal s =
     (let ip = takeWhile (\<lambda>c. c \<in> set digits) s;
          r1 = dropWhile (\<lambda>c. c \<in> set digits) s;
          (fp, r2) = (case r1 of
                        [] \<Rightarrow> ([], [])
                      | c # r \<Rightarrow> if c = CHR ''.''
                                 then (takeWhile (\<lambda>c. c \<in> set digits) r,
                                       dropWhile (\<lambda>c. c \<in> set digits) r)
                                 else ([], r1))
      in if ip = [] \<and> fp = [] then None
         else (case parse_exponent r2 of
                 None \<Rightarrow> None
               | Some e \<Rightarrow>
                   Some (real (digits_val (ip @ fp)) * 10 powi (e - int (length fp)))))"

text \<open>
  \<open>float(s)\<close> of the host language on a string: surrounding whitespace is ignored, then
  an optional sign and either \<open>inf\<close>, \<open>infinity\<close> or \<open>nan\<close> in any letter case, or a
  decimal literal, whose value is taken as written. Anything else raises \<open>ValueError\<close>.
\<close>

definition float :: "string \<Rightarrow> error + fval" where
  "float s =
     (let t = strip s;
          (neg, body) = (case t of
                           [] \<Rightarrow> (False, [])
                         | c # r \<Rightarrow> if c = CHR ''-'' then (True, r)
                                    else if c = CHR ''+'' then (False, r)
                                    else (False, t));
          low = map lower body
      in if low = ''inf'' \<or> low = ''infinity'' then Inr (if neg then NInf else PInf)
         else if low = ''nan'' then Inr NaN
         else (case parse_decimal body of
                 None \<Rightarrow> Inl ValueError
               | Some q \<Rightarrow> Inr (Fin (if neg then - q else q))))"

text \<open>
  A list comprehension whose element expression may raise: the first error ends it.
\<close>

fun map_result :: "('a \<Rightarrow> error + 'b) \<Rightarrow> 'a list \<Rightarrow> error + 'b list" where
  "map_result f [] = Inr []"
| "map_result f (x # xs) =
     (case f x of
        Inl e \<Rightarrow> Inl e
      | Inr y \<Rightarrow> (case map_result f xs of Inl e \<Rightarrow> Inl e | Inr ys \<Rightarrow> Inr (y # ys)))"

section \<open>The settings of one classification\<close>

datatype bin_choice = BC_EVEN | BC_CUSTOM

text \<open>
  One entry of \<open>single_measurements\<close>: the values of the settings of a group. The
  number of bins is a count (the setting is an integer with a minimum), the two static
  thresholds are doubles, the custom thresholds and the bin names are the texts as
  entered.
\<close>

record group =
  object_name :: string
  measurement :: string
  bin_choice :: bin_choice
  bin_count :: nat
  wants_image_based_low_threshold :: bool
  low_threshold_measurement :: string
  low_threshold :: fval
  wants_low_bin :: bool
  wants_image_based_high_threshold :: bool
  high_threshold_measurement :: string
  high_threshold :: fval
  wants_high_bin :: bool
  custom_thresholds :: string
  wants_custom_names :: bool
  bin_names :: string
  wants_images :: bool

text \<open>The number of bins in this classification.\<close>

definition number_of_bins :: "group \<Rightarrow> nat" where
  "number_of_bins g =
     (let value = (if bin_choice g = BC_EVEN then bin_count g
                   else length (split (custom_thresholds g) '','') - 1);
          value = (if wants_low_bin g then value + 1 else value);
          value = (if wants_high_bin g then value + 1 else value)
      in value)"

text \<open>
  The measurement name to use inside the bin name. The loop of the source runs over the
  groups declared before this one (it stops when it reaches the group itself) and counts
  those with the same measurement: \<open>prior\<close> is that list of earlier groups.
\<close>

fun count_same :: "string \<Rightarrow> group list \<Rightarrow> nat" where
  "count_same name [] = 0"
| "count_same name (other # others) =
     (if measurement other = name then count_same name others + 1
      else count_same name others)"

definition measurement_name :: "group list \<Rightarrow> group \<Rightarrow> string" where
  "measurement_name prior g =
     (let other_same = count_same (measurement g) prior
      in if other_same > 0 then measurement g @ str other_same else measurement g)"

text \<open>The feature names for each bin.\<close>

definition bin_feature_names :: "group list \<Rightarrow> group \<Rightarrow> string list" where
  "bin_feature_names prior g =
     (if wants_custom_names g then map strip (split (bin_names g) '','')
      else map (\<lambda>i. join ''_'' [measurement_name prior g, ''Bin_'' @ str (i + 1)])
             [0..<number_of_bins g])"

section \<open>Validation\<close>

datatype setting = S_bin_count | S_custom_thresholds | S_bin_names

text \<open>
  The four messages of a validation error: no bin at all, the number of names (first
  number) differing from the number of bins (second number), a name that is not an
  identifier, thresholds that are not numbers.
\<close>

datatype message = NoBins | NameCountMismatch nat nat | BadName | NotNumbers

datatype validation_error = ValidationError message setting

definition letters :: string where
  "letters = ''abcdefghijklmnopqrstuvwxyzABCDEFGHIJKLMNOPQRSTUVWXYZ''"

text \<open>
  Modelled from the spec: the host's \<open>validate_alphanumeric_text\<close> with
  \<open>first_must_be_alpha\<close> set is not part of the source. A name passes when it is made
  of letters, digits and underscores and does not start with a digit (and is not empty).
\<close>

definition alphanumeric_text :: "string \<Rightarrow> bool" where
  "alphanumeric_text text =
     (case text of
        [] \<Rightarrow> False
      | c # r \<Rightarrow> c \<in> set (letters @ ''_'') \<and> (\<forall>d \<in> set r. d \<in> set (letters @ ''_'' @ digits)))"

definition validate_group :: "group list \<Rightarrow> group \<Rightarrow> validation_error + unit" where
  "validate_group prior g =
     (let bin_name_count = length (bin_feature_names prior g);
          bin_count = number_of_bins g
      in if bin_count < 1 then
           Inl (ValidationError NoBins
                  (if bin_choice g = BC_EVEN then S_bin_count else S_custom_thresholds))
         else if bin_name_count \<noteq> number_of_bins g then
           Inl (ValidationError (NameCountMismatch bin_name_count bin_count) S_bin_names)
         else if \<not> list_all alphanumeric_text (bin_feature_names prior g) then
           Inl (ValidationError BadName S_bin_names)
         else if bin_choice g = BC_CUSTOM then
           (case map_result (\<lambda>x. float (strip x)) (split (custom_thresholds g) '','') of
              Inl e \<Rightarrow> Inl (ValidationError NotNumbers S_custom_thresholds)
            | Inr ts \<Rightarrow> Inr ())
         else Inr ())"

section \<open>Classification of one measurement\<close>

text \<open>\<open>np.arange(n)\<close> as doubles.\<close>

definition arange :: "nat \<Rightarrow> fval list" where
  "arange n = map (\<lambda>i. Fin (real i)) [0..<n]"

text \<open>
  The thresholds of a run, before the infinities are added. \<open>image_measurement\<close> is the
  store of the measurements of the current image. Custom thresholds are parsed again
  here, from the same text the validation read.
\<close>

definition run_thresholds :: "(string \<Rightarrow> fval) \<Rightarrow> group \<Rightarrow> error + fval list" where
  "run_thresholds image_measurement g =
     (if bin_choice g = BC_EVEN then
        (let low_threshold = (if wants_image_based_low_threshold g
                              then image_measurement (low_threshold_measurement g)
                              else low_threshold g);
             high_threshold = (if wants_image_based_high_threshold g
                               then image_measurement (high_threshold_measurement g)
                               else high_threshold g)
         in Inr (map (\<lambda>i. fadd (fdiv (fmul i (fsub high_threshold low_threshold))
                                       (Fin (real (bin_count g))))
                                 low_threshold)
                   (arange (bin_count g + 1))))
      else map_result (\<lambda>x. float (strip x)) (split (custom_thresholds g) '', ''))"

text \<open>Infinities at either end of the thresholds, for the low and the high bin.\<close>

definition hstack_inf :: "group \<Rightarrow> fval list \<Rightarrow> fval list" where
  "hstack_inf g thresholds =
     (if wants_low_bin g then [NInf] else []) @ thresholds @
     (if wants_high_bin g then [PInf] else [])"

definition thresholds_of :: "(string \<Rightarrow> fval) \<Rightarrow> group \<Rightarrow> error + fval list" where
  "thresholds_of image_measurement g =
     (case run_thresholds image_measurement g of
        Inl e \<Rightarrow> Inl e
      | Inr thresholds \<Rightarrow> Inr (hstack_inf g thresholds))"

text \<open>
  The cross-product of objects and threshold comparisons: one row per object, one column
  per pair of neighbouring thresholds.
\<close>

definition bin_hits :: "fval list \<Rightarrow> fval list \<Rightarrow> bool list list" where
  "bin_hits values thresholds =
     map (\<lambda>v. map (\<lambda>th_idx. fgt v (thresholds ! th_idx) \<and> fle v (thresholds ! (th_idx + 1)))
                [0..<length thresholds - 1])
       values"

text \<open>\<open>bin_hits[:, bin_idx]\<close>, for a column that exists.\<close>

definition column :: "bool list list \<Rightarrow> nat \<Rightarrow> bool list" where
  "column hits bin_idx = map (\<lambda>row. row ! bin_idx) hits"

text \<open>The sum of a boolean column: the number of its True entries.\<close>

definition num_hits :: "bool list list \<Rightarrow> nat \<Rightarrow> nat" where
  "num_hits hits bin_idx = length (filter (\<lambda>h. h) (column hits bin_idx))"

text \<open>Division of a double by an integer in the host language: zero raises.\<close>

definition py_div :: "real \<Rightarrow> nat \<Rightarrow> error + real" where
  "py_div a n = (if n = 0 then Inl ZeroDivisionError else Inr (a / real n))"

definition pct_per_bin :: "nat \<Rightarrow> nat \<Rightarrow> error + real" where
  "pct_per_bin hits_in_bin num_values =
     (if num_values > 0 then py_div (100 * real hits_in_bin) num_values else Inr 0)"

text \<open>
  What is recorded for one bin: the per-object membership as integers, the number of
  objects in the bin and their percentage among all objects.
\<close>

record bin_measurement =
  feature_name :: string
  membership :: "nat list"
  num_per_bin :: nat
  pct_per_bin_of :: real

text \<open>
  The loop over the enumerated feature names. \<open>ncols\<close> is the number of columns of the
  matrix; reading a column that does not exist raises \<open>IndexError\<close>.
\<close>

fun record_bins ::
  "bool list list \<Rightarrow> nat \<Rightarrow> nat \<Rightarrow> nat \<Rightarrow> string list \<Rightarrow> error + bin_measurement list" where
  "record_bins hits ncols num_values bin_idx [] = Inr []"
| "record_bins hits ncols num_values bin_idx (name # names) =
     (if bin_idx \<ge> ncols then Inl IndexError
      else (case pct_per_bin (num_hits hits bin_idx) num_values of
              Inl e \<Rightarrow> Inl e
            | Inr pct \<Rightarrow>
                (case record_bins hits ncols num_values (bin_idx + 1) names of
                   Inl e \<Rightarrow> Inl e
                 | Inr rest \<Rightarrow>
                     Inr (\<lparr>feature_name = name,
                           membership = map (\<lambda>h. if h then 1 else 0) (column hits bin_idx),
                           num_per_bin = num_hits hits bin_idx,
                           pct_per_bin_of = pct\<rparr> # rest))))"

text \<open>\<open>np.sum(bin_hits * th_idx, 1) + 1\<close>: per object, the sum of the indices of its bins, plus one.\<close>

definition object_bins :: "bool list list \<Rightarrow> nat list" where
  "object_bins hits =
     map (\<lambda>row. sum_list (map (\<lambda>(h, th_idx). (if h then 1 else 0) * th_idx)
                            (zip row [0..<length row])) + 1)
       hits"

text \<open>
  The colour index per label: label 0 is the background, label \<open>o + 1\<close> is object \<open>o\<close>;
  the entries of the objects whose value is NaN are set to 0.
\<close>

definition object_color :: "fval list \<Rightarrow> bool list list \<Rightarrow> nat list" where
  "object_color values hits =
     0 # map (\<lambda>(v, b). if isnan v then 0 else b) (zip values (object_bins hits))"

record classification =
  hits_of :: "bool list list"
  bins_of :: "bin_measurement list"
  object_color_of :: "nat list option"

text \<open>Classify objects based on one measurement.\<close>

definition run_single_measurement ::
  "bool \<Rightarrow> (string \<Rightarrow> fval) \<Rightarrow> group list \<Rightarrow> group \<Rightarrow> fval list \<Rightarrow> error + classification" where
  "run_single_measurement show_window image_measurement prior g values =
     (case thresholds_of image_measurement g of
        Inl e \<Rightarrow> Inl e
      | Inr thresholds \<Rightarrow>
          (let hits = bin_hits values thresholds;
               num_values = length values
           in case record_bins hits (length thresholds - 1) num_values 0
                     (bin_feature_names prior g) of
                Inl e \<Rightarrow> Inl e
              | Inr bins \<Rightarrow>
                  Inr \<lparr>hits_of = hits,
                       bins_of = bins,
                       object_color_of =
                         (if wants_images g \<or> show_window
                          then Some (object_color values hits) else None)\<rparr>))"

text \<open>
  A group with the default values of its settings and a measurement chosen, for the
  examples below.
\<close>

definition default_group :: group where
  "default_group =
     \<lparr>object_name = ''None'', measurement = ''AreaShape_Area'', bin_choice = BC_EVEN,
      bin_count = 3,
      wants_image_based_low_threshold = True, low_threshold_measurement = ''None'',
      low_threshold = Fin 0, wants_low_bin = False,
      wants_image_based_high_threshold = False, high_threshold_measurement = ''None'',
      high_threshold = Fin 1, wants_high_bin = False,
      custom_thresholds = ''0,1'', wants_custom_names = False, bin_names = ''None'',
      wants_images = False\<rparr>"

text \<open>A group with custom-defined bins and the given text of thresholds.\<close>

definition custom_group :: "string \<Rightarrow> group" where
  "custom_group text = default_group\<lparr>bin_choice := BC_CUSTOM, custom_thresholds := text\<rparr>"

text \<open>A group with custom-defined bins and custom bin names.\<close>

definition named_group :: "string \<Rightarrow> string \<Rightarrow> group" where
  "named_group text names = (custom_group text)\<lparr>wants_custom_names := True, bin_names := names\<rparr>"


text \<open>An image without measurements: every image measurement reads as NaN.\<close>

definition no_image_measurements :: "string \<Rightarrow> fval" where
  "no_image_measurements name = NaN"

section \<open>Notions used to state the properties\<close>



text \<open>An edge sequence in which each edge is at most the next one.\<close>

fun nondecreasing :: "fval list \<Rightarrow> bool" where
  "nondecreasing [] = True"
| "nondecreasing [x] = True"
| "nondecreasing (x # y # ys) = (fle x y \<and> nondecreasing (y # ys))"

text \<open>The sum over all bins of the per-bin object counts.\<close>

definition total_hits :: "fval list \<Rightarrow> fval list \<Rightarrow> nat" where
  "total_hits values thresholds =
     sum_list (map (num_hits (bin_hits values thresholds)) [0..<length thresholds - 1])"

text \<open>The number of True entries of a row of the matrix.\<close>

definition row_hits :: "bool list \<Rightarrow> nat" where
  "row_hits row = length (filter (\<lambda>h. h) row)"

text \<open>The interval test of one object value against bin \<open>b\<close> of an edge sequence.\<close>

definition in_bin :: "fval \<Rightarrow> fval list \<Rightarrow> nat \<Rightarrow> bool" where
  "in_bin v thresholds b = (fgt v (thresholds ! b) \<and> fle v (thresholds ! (b + 1)))"

section \<open>Order of the edges and exclusive bins\<close>

lemma fle_trans: "fle a b \<Longrightarrow> fle b c \<Longrightarrow> fle a c"
  by (cases a; cases b; cases c) auto

lemma fle_not_fgt: "fle a b \<Longrightarrow> \<not> fgt a b"
  by (cases a; cases b) auto

lemma nondecreasing_Cons: "nondecreasing (x # xs) \<Longrightarrow> nondecreasing xs"
  by (cases xs) auto

lemma nondecreasing_head_le: "nondecreasing (x # xs) \<Longrightarrow> j < length xs \<Longrightarrow> fle x (xs ! j)"
proof (induction xs arbitrary: x j)
  case Nil
  then show ?case by simp
next
  case (Cons y ys)
  show ?case
  proof (cases j)
    case 0
    with Cons.prems show ?thesis by simp
  next
    case (Suc k)
    from Cons.prems have "fle x y" and "nondecreasing (y # ys)" by simp_all
    moreover from Cons.prems Suc have "k < length ys" by simp
    ultimately show ?thesis using Cons.IH [of y k] Suc by (auto intro: fle_trans)
  qed
qed

lemma nondecreasing_nth: "nondecreasing es \<Longrightarrow> i < j \<Longrightarrow> j < length es \<Longrightarrow> fle (es ! i) (es ! j)"
proof (induction es arbitrary: i j)
  case Nil
  then show ?case by simp
next
  case (Cons e es)
  show ?case
  proof (cases i)
    case 0
    with Cons.prems obtain k where "j = Suc k" by (cases j) auto
    with Cons.prems 0 show ?thesis using nondecreasing_head_le [of e es k] by simp
  next
    case (Suc i')
    with Cons.prems obtain k where k: "j = Suc k" by (cases j) auto
    with Cons.prems Suc show ?thesis using Cons.IH [of i' k] nondecreasing_Cons [of e es] by simp
  qed
qed

lemma hits_exclusive:
  assumes nd: "nondecreasing es" and b: "b < b'" and b': "b' + 1 < length es"
    and h1: "fle v (es ! (b + 1))" and h2: "fgt v (es ! b')"
  shows False
proof -
  have "fle v (es ! b')"
  proof (cases "b + 1 = b'")
    case True
    with h1 show ?thesis by simp
  next
    case False
    with b have "b + 1 < b'" by simp
    with nd b' have "fle (es ! (b + 1)) (es ! b')" by (intro nondecreasing_nth) auto
    with h1 show ?thesis by (rule fle_trans)
  qed
  with h2 show False by (auto dest: fle_not_fgt)
qed


lemma bin_hits_rows:
  "bin_hits values es = map (\<lambda>v. map (in_bin v es) [0..<length es - 1]) values"
  by (simp add: bin_hits_def in_bin_def)

lemma in_bin_exclusive:
  assumes nd: "nondecreasing es" and b: "b < length es - 1" and b': "b' < length es - 1"
    and h: "in_bin v es b" and h': "in_bin v es b'"
  shows "b = b'"
proof (rule ccontr)
  assume "b \<noteq> b'"
  then consider "b < b'" | "b' < b" by linarith
  then show False
  proof cases
    case 1
    from b' have "b' + 1 < length es" by simp
    with nd 1 h h' show False using hits_exclusive [of es b b' v] by (simp add: in_bin_def)
  next
    case 2
    from b have "b + 1 < length es" by simp
    with nd 2 h h' show False using hits_exclusive [of es b' b v] by (simp add: in_bin_def)
  qed
qed

lemma length_filter_le_1:
  assumes "distinct xs" and "\<And>x y. x \<in> set xs \<Longrightarrow> y \<in> set xs \<Longrightarrow> P x \<Longrightarrow> P y \<Longrightarrow> x = y"
  shows "length (filter P xs) \<le> 1"
proof -
  have "length (filter P xs) = card {x \<in> set xs. P x}"
    using assms(1) by (simp add: distinct_length_filter Int_def conj_commute)
  also have "\<dots> \<le> Suc 0"
    using assms(2) by (subst card_le_Suc0_iff_eq) auto
  finally show ?thesis by simp
qed

lemma row_hits_map: "row_hits (map f xs) = length (filter f xs)"
  by (induction xs) (simp_all add: row_hits_def)

lemma row_hits_le_1:
  assumes "nondecreasing es"
  shows "row_hits (map (in_bin v es) [0..<length es - 1]) \<le> 1"
  unfolding row_hits_map
proof (rule length_filter_le_1)
  show "distinct [0..<length es - 1]" by simp
next
  fix x y
  assume "x \<in> set [0..<length es - 1]" and "y \<in> set [0..<length es - 1]"
    and "in_bin v es x" and "in_bin v es y"
  then show "x = y" using in_bin_exclusive [OF assms, of x y v] by simp
qed

lemma in_bin_nan: "isnan v \<Longrightarrow> \<not> in_bin v es b"
  by (cases v) (simp_all add: in_bin_def)

lemma row_hits_nan: "isnan v \<Longrightarrow> row_hits (map (in_bin v es) xs) = 0"
  by (simp add: row_hits_map in_bin_nan)

lemma sum_list_indicator: "sum_list (map (\<lambda>x. if P x then 1 else 0) xs) = length (filter P xs)"
  by (induction xs) simp_all

lemma num_hits_Nil: "num_hits [] b = 0"
  by (simp add: num_hits_def column_def)

lemma num_hits_Cons: "num_hits (row # hits) b = (if row ! b then 1 else 0) + num_hits hits b"
  by (simp add: num_hits_def column_def)

lemma total_hits_rows:
  "total_hits vs es = sum_list (map (\<lambda>v. row_hits (map (in_bin v es) [0..<length es - 1])) vs)"
proof (induction vs)
  case Nil
  show ?case by (simp add: total_hits_def bin_hits_rows num_hits_Nil)
next
  case (Cons v vs)
  let ?n = "length es - 1"
  have "map (num_hits (bin_hits (v # vs) es)) [0..<?n] =
      map (\<lambda>b. (if in_bin v es b then 1 else 0) + num_hits (bin_hits vs es) b) [0..<?n]"
    by (simp add: bin_hits_rows num_hits_Cons)
  then have "total_hits (v # vs) es =
      sum_list (map (\<lambda>b. (if in_bin v es b then 1 else 0) + num_hits (bin_hits vs es) b) [0..<?n])"
    unfolding total_hits_def by (rule arg_cong)
  also have "\<dots> = length (filter (in_bin v es) [0..<?n]) + total_hits vs es"
    by (simp add: sum_list_addf sum_list_indicator total_hits_def)
  finally show ?case using Cons.IH by (simp add: row_hits_map)
qed

lemma sum_list_le_length:
  assumes "\<And>x. x \<in> set xs \<Longrightarrow> f x \<le> (1::nat)"
  shows "sum_list (map f xs) \<le> length xs"
  using assms
proof (induction xs)
  case Nil
  show ?case by simp
next
  case (Cons x xs)
  have "f x \<le> 1" using Cons.prems by simp
  moreover have "sum_list (map f xs) \<le> length xs" using Cons by simp
  ultimately show ?case by simp
qed

lemma sum_list_eq_length_iff:
  assumes "\<And>x. x \<in> set xs \<Longrightarrow> f x \<le> (1::nat)"
  shows "sum_list (map f xs) = length xs \<longleftrightarrow> (\<forall>x \<in> set xs. f x = 1)"
  using assms
proof (induction xs)
  case Nil
  show ?case by simp
next
  case (Cons x xs)
  have le: "sum_list (map f xs) \<le> length xs" using Cons.prems by (intro sum_list_le_length) simp
  have fx: "f x \<le> 1" using Cons.prems by simp
  have IH: "sum_list (map f xs) = length xs \<longleftrightarrow> (\<forall>x \<in> set xs. f x = 1)"
    using Cons by simp
  show ?case using le fx IH by auto
qed

lemma row_hits_one_iff:
  assumes "row_hits (map f xs) \<le> 1"
  shows "row_hits (map f xs) = 1 \<longleftrightarrow> (\<exists>x \<in> set xs. f x)"
proof -
  have "row_hits (map f xs) = 0 \<longleftrightarrow> \<not> (\<exists>x \<in> set xs. f x)"
    by (simp add: row_hits_map filter_empty_conv)
  with assms show ?thesis by linarith
qed

section \<open>Custom thresholds: validation and run read the text differently\<close>

text \<open>
  C1. The claim: a custom-threshold text that passes validation is parsed at run time
  without error, to the same list of doubles; the text \<open>0,1,2\<close> gives
  \<open>[0.0, 1.0, 2.0]\<close>. The code: validation and \<open>number_of_bins\<close> split the text at
  \<open>","\<close>, the run splits it at \<open>", "\<close> (comma and space). The text \<open>0,1,2\<close> passes
  validation, where it parses to \<open>[0, 1, 2]\<close>; at run time it is one token, which is no
  number, and the run ends in \<open>ValueError\<close>.
\<close>

theorem run_rejects_validated_thresholds:
  "validate_group [] (custom_group ''0,1,2'') = Inr () \<and>
   map_result (\<lambda>x. float (strip x)) (split ''0,1,2'' '','') = Inr [Fin 0, Fin 1, Fin 2] \<and>
   split ''0,1,2'' '', '' = [''0,1,2''] \<and>
   thresholds_of no_image_measurements (custom_group ''0,1,2'') = Inl ValueError \<and>
   run_single_measurement False no_image_measurements [] (custom_group ''0,1,2'') [Fin (1/2)]
     = Inl ValueError"
  by code_simp

section \<open>Each object in at most one bin\<close>

text \<open>
  C3, as stated: for every edge sequence of a group that passes validation, every row of
  the matrix has at most one True entry. It fails for custom thresholds that are not in
  increasing order, which validation accepts: with the edges \<open>0, 10, 5, 20\<close> the value 7
  is in the first and in the third bin.
\<close>

theorem overlapping_bins_counterexample:
  "validate_group [] (custom_group ''0, 10, 5, 20'') = Inr () \<and>
   thresholds_of no_image_measurements (custom_group ''0, 10, 5, 20'')
     = Inr [Fin 0, Fin 10, Fin 5, Fin 20] \<and>
   bin_hits [Fin 7] [Fin 0, Fin 10, Fin 5, Fin 20] = [[True, False, True]]"
  by code_simp

text \<open>
  C3, amended: for every non-decreasing edge sequence and every measurement vector, every
  row of the matrix has at most one True entry.
\<close>

theorem rows_mutually_exclusive:
  assumes "nondecreasing edges"
  shows "\<forall>row \<in> set (bin_hits vs edges). row_hits row \<le> 1"
  using row_hits_le_1 [OF assms] by (auto simp: bin_hits_rows)

theorem rows_mutually_exclusive_witness:
  "nondecreasing [NInf, Fin 0, Fin 5, Fin 10, PInf] \<and>
   list_all (\<lambda>row. row_hits row \<le> 1)
     (bin_hits [Fin (- 5), Fin 5, NaN, Fin 15] [NInf, Fin 0, Fin 5, Fin 10, PInf])"
proof -
  have nd: "nondecreasing [NInf, Fin 0, Fin 5, Fin 10, PInf]" by simp
  from rows_mutually_exclusive [OF nd, of "[Fin (- 5), Fin 5, NaN, Fin 15]"] nd
  show ?thesis by (simp only: list_all_iff simp_thms)
qed

section \<open>The per-bin counts against the number of objects\<close>

text \<open>
  C4, as stated: for every edge sequence and every vector of \<open>N\<close> values the per-bin counts
  sum to at most \<open>N\<close>, with equality exactly when no value is NaN. Both parts fail: with
  the edges \<open>0, 10, 5, 20\<close> the one value 7 is counted twice, and with the edges
  \<open>0, 5, 10\<close> the value 0, which is not NaN, is counted in no bin.
\<close>

theorem counts_sum_counterexample:
  "\<not> total_hits [Fin 7] [Fin 0, Fin 10, Fin 5, Fin 20] \<le> length [Fin 7] \<and>
   \<not> (total_hits [Fin 0] [Fin 0, Fin 5, Fin 10] = length [Fin 0]
        \<longleftrightarrow> list_all (\<lambda>v. \<not> isnan v) [Fin 0])"
  by code_simp

text \<open>
  C4, amended: for every non-decreasing edge sequence and every vector of \<open>N\<close> values the
  per-bin counts sum to at most \<open>N\<close>; equality holds exactly when every value lies in some
  bin, and then no value is NaN.
\<close>

theorem total_hits_bound:
  assumes "nondecreasing edges"
  shows "total_hits vs edges \<le> length vs \<and>
         (total_hits vs edges = length vs \<longleftrightarrow>
            (\<forall>v \<in> set vs. \<exists>b < length edges - 1. in_bin v edges b)) \<and>
         (total_hits vs edges = length vs \<longrightarrow> (\<forall>v \<in> set vs. \<not> isnan v))"
proof -
  let ?row = "\<lambda>v. map (in_bin v edges) [0..<length edges - 1]"
  have le1: "\<And>v. row_hits (?row v) \<le> 1" using assms by (rule row_hits_le_1)
  have one: "row_hits (?row v) = 1 \<longleftrightarrow> (\<exists>b < length edges - 1. in_bin v edges b)" for v
    using row_hits_one_iff [OF le1 [of v]] by auto
  have bound: "total_hits vs edges \<le> length vs"
    unfolding total_hits_rows using le1 by (intro sum_list_le_length)
  have eq: "total_hits vs edges = length vs \<longleftrightarrow>
      (\<forall>v \<in> set vs. \<exists>b < length edges - 1. in_bin v edges b)"
    using sum_list_eq_length_iff [of vs "\<lambda>v. row_hits (?row v)"] le1 one
    unfolding total_hits_rows by simp
  have "\<forall>v \<in> set vs. \<not> isnan v" if "total_hits vs edges = length vs"
    using that eq in_bin_nan by blast
  with bound eq show ?thesis by blast
qed

theorem total_hits_bound_witness:
  "nondecreasing [NInf, Fin 0, Fin 5] \<and>
   total_hits [Fin (- 5), Fin 5, NaN] [NInf, Fin 0, Fin 5] \<le> 3 \<and>
   total_hits [Fin (- 5), Fin 5] [NInf, Fin 0, Fin 5] = 2 \<and>
   \<not> isnan (Fin 5)"
proof -
  have nd: "nondecreasing [NInf, Fin 0, Fin 5]" by simp
  have eq: "total_hits [Fin (- 5), Fin 5] [NInf, Fin 0, Fin 5] = length [Fin (- 5), Fin 5]"
    by code_simp
  from total_hits_bound [OF nd, of "[Fin (- 5), Fin 5, NaN]"]
  have le: "total_hits [Fin (- 5), Fin 5, NaN] [NInf, Fin 0, Fin 5] \<le> 3" by simp
  from total_hits_bound [OF nd, of "[Fin (- 5), Fin 5]"] eq
  have "\<forall>v \<in> set [Fin (- 5), Fin 5]. \<not> isnan v" by blast
  then have "\<not> isnan (Fin 5)" by simp
  with nd le eq show ?thesis by simp
qed

section \<open>Thresholds out of order pass validation\<close>

text \<open>
  C10. Validation does not look at the order of the custom thresholds: the text \<open>3,2,1\<close>
  passes, and so does \<open>3, 2, 1\<close>, whose decreasing edges the run hands to the classifier.
\<close>

theorem unordered_thresholds_pass_validation:
  "validate_group [] (custom_group ''3,2,1'') = Inr () \<and>
   validate_group [] (custom_group ''3, 2, 1'') = Inr () \<and>
   thresholds_of no_image_measurements (custom_group ''3, 2, 1'') = Inr [Fin 3, Fin 2, Fin 1] \<and>
   \<not> nondecreasing [Fin 3, Fin 2, Fin 1] \<and>
   bin_hits [Fin 2] [Fin 3, Fin 2, Fin 1] = [[False, False]]"
  by code_simp

section \<open>The entries of the membership matrix\<close>

lemma bin_hits_nth:
  assumes "ob < length vs"
  shows "bin_hits vs es ! ob = map (in_bin (vs ! ob) es) [0..<length es - 1]"
  using assms by (simp add: bin_hits_rows)

lemma all_edges_above: "\<forall>e \<in> set es. fle v e \<Longrightarrow> b < length es \<Longrightarrow> \<not> in_bin v es b"
  by (auto simp: in_bin_def dest: fle_not_fgt)

lemma nan_compares_false: "\<not> fgt NaN e \<and> \<not> fle NaN e \<and> \<not> fgt e NaN \<and> \<not> fle e NaN"
  by (cases e) simp_all

text \<open>
  C5. The matrix has one row per object and one column per bin; the entry of object \<open>ob\<close>
  and bin \<open>b\<close> is \<open>values[ob] > edges[b] and values[ob] <= edges[b+1]\<close>. NaN compares
  False on both sides of every edge, so the row of a NaN value is all False; and the row
  of a value that is at most every edge (a value equal to the lowest edge) is all False.
\<close>

theorem membership_entry:
  assumes ob: "ob < length vs"
  shows "length (bin_hits vs edges) = length vs \<and>
     length (bin_hits vs edges ! ob) = length edges - 1 \<and>
     (\<forall>b < length edges - 1.
        bin_hits vs edges ! ob ! b
          = (fgt (vs ! ob) (edges ! b) \<and> fle (vs ! ob) (edges ! (b + 1)))) \<and>
     (\<forall>e. \<not> fgt NaN e \<and> \<not> fle NaN e) \<and>
     (isnan (vs ! ob) \<longrightarrow> bin_hits vs edges ! ob = replicate (length edges - 1) False) \<and>
     ((\<forall>e \<in> set edges. fle (vs ! ob) e) \<longrightarrow>
        bin_hits vs edges ! ob = replicate (length edges - 1) False)"
proof (intro conjI allI impI)
  show "length (bin_hits vs edges) = length vs" by (simp add: bin_hits_def)
next
  show "length (bin_hits vs edges ! ob) = length edges - 1"
    using ob by (simp add: bin_hits_nth)
next
  fix b assume "b < length edges - 1"
  then show "bin_hits vs edges ! ob ! b
      = (fgt (vs ! ob) (edges ! b) \<and> fle (vs ! ob) (edges ! (b + 1)))"
    using ob by (simp add: bin_hits_nth in_bin_def)
next
  fix e show "\<not> fgt NaN e" by simp
next
  fix e show "\<not> fle NaN e" by simp
next
  assume "isnan (vs ! ob)"
  then show "bin_hits vs edges ! ob = replicate (length edges - 1) False"
    using ob by (simp add: bin_hits_nth in_bin_nan list_eq_iff_nth_eq)
next
  assume "\<forall>e \<in> set edges. fle (vs ! ob) e"
  then have "\<And>b. b < length edges - 1 \<Longrightarrow> \<not> in_bin (vs ! ob) edges b"
    using all_edges_above [of edges "vs ! ob"] by simp
  then show "bin_hits vs edges ! ob = replicate (length edges - 1) False"
    using ob by (simp add: bin_hits_nth list_eq_iff_nth_eq)
qed

theorem membership_entry_witness:
  "bin_hits [NaN, Fin 0, Fin 5] [Fin 0, Fin 5, Fin 10] ! 0 = [False, False] \<and>
   bin_hits [NaN, Fin 0, Fin 5] [Fin 0, Fin 5, Fin 10] ! 1 = [False, False] \<and>
   bin_hits [NaN, Fin 0, Fin 5] [Fin 0, Fin 5, Fin 10] ! 2 ! 0"
proof -
  let ?vs = "[NaN, Fin 0, Fin 5]" and ?es = "[Fin 0, Fin 5, Fin 10]"
  have rep: "replicate (length ?es - 1) False = [False, False]"
    by (simp add: numeral_2_eq_2)
  have "isnan (?vs ! 0)" by simp
  with membership_entry [of 0 ?vs ?es]
  have "bin_hits ?vs ?es ! 0 = replicate (length ?es - 1) False" by simp
  then have r0: "bin_hits ?vs ?es ! 0 = [False, False]" by (simp only: rep)
  have "\<forall>e \<in> set ?es. fle (?vs ! 1) e" by simp
  with membership_entry [of 1 ?vs ?es]
  have "bin_hits ?vs ?es ! 1 = replicate (length ?es - 1) False" by simp
  then have r1: "bin_hits ?vs ?es ! 1 = [False, False]" by (simp only: rep)
  have "(0::nat) < length ?es - 1" by simp
  moreover have "(2::nat) < length ?vs" by simp
  ultimately have "bin_hits ?vs ?es ! 2 ! 0
      = (fgt (?vs ! 2) (?es ! 0) \<and> fle (?vs ! 2) (?es ! (0 + 1)))"
    using membership_entry [of 2 ?vs ?es] by blast
  then have r2: "bin_hits ?vs ?es ! 2 ! 0" by simp
  from r0 r1 r2 show ?thesis by blast
qed

section \<open>The colour index of an object\<close>

lemma sum_list_single:
  "sum_list (map (\<lambda>i. if i = b then c else 0) [0..<n]) = (if b < n then c else (0::nat))"
  by (induction n) auto

lemma object_bins_nth:
  assumes "ob < length vs"
  shows "object_bins (bin_hits vs es) ! ob =
     sum_list (map (\<lambda>i. (if in_bin (vs ! ob) es i then 1 else 0) * i) [0..<length es - 1]) + 1"
proof -
  let ?n = "length es - 1"
  have "zip (map (in_bin (vs ! ob) es) [0..<?n]) [0..<?n]
      = map (\<lambda>i. (in_bin (vs ! ob) es i, i)) [0..<?n]"
    by (simp add: zip_map1 zip_same_conv_map)
  then show ?thesis using assms by (simp add: object_bins_def bin_hits_rows comp_def)
qed

lemma object_color_nth:
  assumes "ob < length vs"
  shows "object_color vs (bin_hits vs es) ! Suc ob =
     (if isnan (vs ! ob) then 0 else object_bins (bin_hits vs es) ! ob)"
  using assms by (simp add: object_color_def object_bins_def bin_hits_def)

text \<open>
  C2, as stated: an object whose row is all False gets the index 0. The index is the sum
  of the indices of the object's bins plus one, and only the entries of NaN values are
  set to 0 afterwards: the value 0 against the edges \<open>0, 5, 10\<close> is in no bin and gets the
  index 1, the index of the value 3, which is in the first bin.
\<close>

theorem unclassified_index_counterexample:
  "bin_hits [Fin 0] [Fin 0, Fin 5, Fin 10] = [[False, False]] \<and>
   object_color [Fin 0] (bin_hits [Fin 0] [Fin 0, Fin 5, Fin 10]) = [0, 1] \<and>
   object_color [Fin 3] (bin_hits [Fin 3] [Fin 0, Fin 5, Fin 10]) = [0, 1]"
  by code_simp

text \<open>
  C2, amended: the index of an object whose value is NaN is 0, and the index of an object
  that is in bin \<open>b\<close> and in no other bin is \<open>b + 1\<close>.
\<close>

theorem object_color_index:
  assumes "ob < length vs"
  shows "(isnan (vs ! ob) \<longrightarrow> object_color vs (bin_hits vs edges) ! (ob + 1) = 0) \<and>
         (\<forall>b < length edges - 1.
            bin_hits vs edges ! ob ! b \<and>
            (\<forall>b' < length edges - 1. bin_hits vs edges ! ob ! b' \<longrightarrow> b' = b)
            \<longrightarrow> object_color vs (bin_hits vs edges) ! (ob + 1) = b + 1)"
proof (intro conjI allI impI)
  assume "isnan (vs ! ob)"
  then show "object_color vs (bin_hits vs edges) ! (ob + 1) = 0"
    using assms by (simp add: object_color_nth)
next
  fix b
  assume b: "b < length edges - 1"
    and only: "bin_hits vs edges ! ob ! b \<and>
       (\<forall>b' < length edges - 1. bin_hits vs edges ! ob ! b' \<longrightarrow> b' = b)"
  let ?v = "vs ! ob" and ?n = "length edges - 1"
  have entry: "bin_hits vs edges ! ob ! i = in_bin ?v edges i" if "i < ?n" for i
    using assms that by (simp add: bin_hits_nth)
  from only have "bin_hits vs edges ! ob ! b" by (rule conjunct1)
  with entry [OF b] have inb: "in_bin ?v edges b" by blast
  then have notnan: "\<not> isnan ?v" using in_bin_nan by blast
  have summand: "(if in_bin ?v edges i then 1 else 0) * i = (if i = b then b else 0)"
    if i: "i < ?n" for i
  proof (cases "i = b")
    case True
    with inb show ?thesis by simp
  next
    case False
    from only have "\<forall>b' < ?n. bin_hits vs edges ! ob ! b' \<longrightarrow> b' = b" by (rule conjunct2)
    with i False have "\<not> bin_hits vs edges ! ob ! i" by blast
    with entry [OF i] have "\<not> in_bin ?v edges i" by blast
    with False show ?thesis by simp
  qed
  have "map (\<lambda>i. (if in_bin ?v edges i then 1 else 0) * i) [0..<?n]
      = map (\<lambda>i. if i = b then b else 0) [0..<?n]"
    by (rule map_cong [OF refl]) (simp add: summand)
  then have "sum_list (map (\<lambda>i. (if in_bin ?v edges i then 1 else 0) * i) [0..<?n])
      = sum_list (map (\<lambda>i. if i = b then b else 0) [0..<?n])"
    by (rule arg_cong)
  also have "\<dots> = b" using b by (simp only: sum_list_single if_True)
  finally have "object_bins (bin_hits vs edges) ! ob = b + 1"
    by (simp only: object_bins_nth [OF assms])
  with notnan show "object_color vs (bin_hits vs edges) ! (ob + 1) = b + 1"
    using assms by (simp add: object_color_nth)
qed

theorem object_color_index_witness:
  "object_color [NaN, Fin 7] (bin_hits [NaN, Fin 7] [Fin 0, Fin 5, Fin 10]) ! 1 = 0 \<and>
   object_color [NaN, Fin 7] (bin_hits [NaN, Fin 7] [Fin 0, Fin 5, Fin 10]) ! 2 = 2"
proof -
  let ?vs = "[NaN, Fin 7]" and ?es = "[Fin 0, Fin 5, Fin 10]"
  have l0: "(0::nat) < length ?vs" and l1: "(1::nat) < length ?vs" by simp_all
  have "isnan (?vs ! 0)" by simp
  with object_color_index [OF l0, of ?es]
  have c0: "object_color ?vs (bin_hits ?vs ?es) ! (0 + 1) = 0" by blast
  have hits: "bin_hits ?vs ?es = [[False, False], [False, True]]" by code_simp
  have only: "\<forall>b' < length ?es - 1. bin_hits ?vs ?es ! 1 ! b' \<longrightarrow> b' = 1"
    unfolding hits by (simp add: less_Suc_eq nth_Cons')
  have here: "bin_hits ?vs ?es ! 1 ! 1" unfolding hits by simp
  have b: "(1::nat) < length ?es - 1" by simp
  from object_color_index [OF l1, of ?es] b here only
  have c1: "object_color ?vs (bin_hits ?vs ?es) ! (1 + 1) = 1 + 1" by blast
  from c0 c1 show ?thesis by (simp add: numeral_2_eq_2)
qed

section \<open>Counts and percentages per bin\<close>








lemma num_hits_empty: "num_hits (bin_hits [] es) b = 0"
  by (simp add: bin_hits_def num_hits_def column_def)








section \<open>The number of bin names\<close>

text \<open>
  C8, as stated: with custom names whose number differs from the number of bins,
  validation fails pointing at the bin-names setting. The check of the number of bins
  comes first: with the single threshold \<open>5\<close> there is no bin, the two names \<open>a,b\<close>
  differ from that in number, and the error points at the custom thresholds.
\<close>

theorem name_count_counterexample:
  "wants_custom_names (named_group ''5'' ''a,b'') \<and>
   length (bin_feature_names [] (named_group ''5'' ''a,b'')) = 2 \<and>
   number_of_bins (named_group ''5'' ''a,b'') = 0 \<and>
   validate_group [] (named_group ''5'' ''a,b'')
     = Inl (ValidationError NoBins S_custom_thresholds)"
  by code_simp

text \<open>
  C8, amended: with custom names, at least one bin, and a number of names that differs
  from the number of bins, validation fails with the error of the name count, which
  points at the bin-names setting; when the two numbers agree, validation does not fail
  with that error.
\<close>

theorem name_count_rule:
  "(wants_custom_names g \<and> 1 \<le> number_of_bins g \<and>
    length (split (bin_names g) '','') \<noteq> number_of_bins g \<longrightarrow>
      validate_group prior g
        = Inl (ValidationError
                 (NameCountMismatch (length (split (bin_names g) '','')) (number_of_bins g))
                 S_bin_names)) \<and>
   (length (bin_feature_names prior g) = number_of_bins g \<longrightarrow>
      (\<forall>n m s. validate_group prior g \<noteq> Inl (ValidationError (NameCountMismatch n m) s)))"
proof -
  have fails: "validate_group prior g
        = Inl (ValidationError
                 (NameCountMismatch (length (split (bin_names g) '','')) (number_of_bins g))
                 S_bin_names)"
    if "wants_custom_names g" and "1 \<le> number_of_bins g"
      and "length (split (bin_names g) '','') \<noteq> number_of_bins g"
    using that by (simp add: validate_group_def bin_feature_names_def Let_def)
  have passes: "validate_group prior g \<noteq> Inl (ValidationError (NameCountMismatch n m) s)"
    if "length (bin_feature_names prior g) = number_of_bins g" for n m s
    using that by (simp add: validate_group_def Let_def split: sum.splits)
  from fails passes show ?thesis by blast
qed

theorem name_count_rule_witness:
  "validate_group [] (named_group ''0,1,2'' ''a,b,c'')
     = Inl (ValidationError (NameCountMismatch 3 2) S_bin_names) \<and>
   validate_group [] (named_group ''0,1,2'' ''low,high'')
     \<noteq> Inl (ValidationError (NameCountMismatch 2 2) S_bin_names)"
proof -
  let ?g = "named_group ''0,1,2'' ''a,b,c''" and ?h = "named_group ''0,1,2'' ''low,high''"
  have g: "wants_custom_names ?g" "number_of_bins ?g = 2" "length (split (bin_names ?g) '','') = 3"
    by code_simp+
  then have "wants_custom_names ?g \<and> 1 \<le> number_of_bins ?g \<and>
      length (split (bin_names ?g) '','') \<noteq> number_of_bins ?g" by simp
  with name_count_rule [of ?g "[]"] g
  have a: "validate_group [] ?g = Inl (ValidationError (NameCountMismatch 3 2) S_bin_names)"
    by simp
  have "length (bin_feature_names [] ?h) = number_of_bins ?h" by code_simp
  with name_count_rule [of ?h "[]"]
  have "validate_group [] ?h \<noteq> Inl (ValidationError (NameCountMismatch 2 2) S_bin_names)"
    by blast
  with a show ?thesis by blast
qed

section \<open>Generated feature names\<close>

lemma digit_val_digits: "k < 10 \<Longrightarrow> digit_val (digits ! k) = k"
proof -
  assume "k < 10"
  then have "k \<in> {0, 1, 2, 3, 4, 5, 6, 7, 8, 9}" by auto
  then show ?thesis by (auto simp: digits_def)
qed

lemma digits_val_snoc: "digits_val (ds @ [c]) = 10 * digits_val ds + digit_val c"
  by (simp add: digits_val_def)

lemma str_decimal: "digits_val (str n) = n"
proof (induction n rule: str.induct)
  case (1 n)
  show ?case
  proof (cases "n < 10")
    case True
    then show ?thesis
      by (subst str.simps) (simp add: digits_val_def digit_val_digits del: digit_val.simps)
  next
    case False
    with 1 have "digits_val (str (n div 10)) = n div 10" by simp
    with False show ?thesis
      by (subst str.simps) (simp add: digits_val_snoc digit_val_digits del: digit_val.simps)
  qed
qed

lemma count_same_filter:
  "count_same name prior = length (filter (\<lambda>other. measurement other = name) prior)"
  by (induction prior) simp_all

text \<open>
  C9. Without custom names the feature names are the measurement name, \<open>_Bin_\<close> and the
  number \<open>i + 1\<close>, for \<open>i\<close> from 0 below the number of bins. The measurement name of a
  group with \<open>k\<close> earlier groups of the same measurement is the measurement followed by
  the decimal numeral of \<open>k\<close> when \<open>k > 0\<close>, and the measurement alone when \<open>k = 0\<close>.
\<close>

theorem auto_feature_names:
  assumes "\<not> wants_custom_names g"
  shows "bin_feature_names prior g
           = map (\<lambda>i. measurement_name prior g @ ''_Bin_'' @ str (i + 1))
               [0..<number_of_bins g] \<and>
         measurement_name prior g
           = (let k = length (filter (\<lambda>other. measurement other = measurement g) prior)
              in if k = 0 then measurement g else measurement g @ str k) \<and>
         (\<forall>k. digits_val (str k) = k)"
  using assms
  by (simp add: bin_feature_names_def measurement_name_def count_same_filter Let_def str_decimal)

theorem auto_feature_names_witness:
  "bin_feature_names [] default_group
     = [''AreaShape_Area_Bin_1'', ''AreaShape_Area_Bin_2'', ''AreaShape_Area_Bin_3''] \<and>
   bin_feature_names [default_group, custom_group ''0,1''] (custom_group ''0,1'')
     = [''AreaShape_Area2_Bin_1'']"
proof -
  let ?c = "custom_group ''0,1''"
  have d: "\<not> wants_custom_names default_group" and c: "\<not> wants_custom_names ?c"
    by code_simp+
  have r1: "map (\<lambda>i. measurement_name [] default_group @ ''_Bin_'' @ str (i + 1))
               [0..<number_of_bins default_group]
      = [''AreaShape_Area_Bin_1'', ''AreaShape_Area_Bin_2'', ''AreaShape_Area_Bin_3'']"
    by code_simp
  have r2: "map (\<lambda>i. measurement_name [default_group, ?c] ?c @ ''_Bin_'' @ str (i + 1))
               [0..<number_of_bins ?c]
      = [''AreaShape_Area2_Bin_1'']"
    by code_simp
  from auto_feature_names [OF d, of "[]"] r1
  have a: "bin_feature_names [] default_group
     = [''AreaShape_Area_Bin_1'', ''AreaShape_Area_Bin_2'', ''AreaShape_Area_Bin_3'']"
    by (simp only:)
  from auto_feature_names [OF c, of "[default_group, ?c]"] r2
  have b: "bin_feature_names [default_group, ?c] ?c = [''AreaShape_Area2_Bin_1'']"
    by (simp only:)
  from a b show ?thesis by blast
qed

section \<open>The edge sequence of a run\<close>























end
